theory Spec2Isabelle
  imports
    Main
    "HOL-Library.Multiset"
    "HOL-Library.Sublist"
    "HOL-Library.Char_ord"
    "HOL-Library.List_Lexorder"
    "HOL-Library.Product_Lexorder"
begin

section \<open>The invoice dashboard: loading, normalizing, partitioning, filtering, views\<close>

text \<open>
  A shallow embedding of \<^verbatim>\<open>dashboard.py\<close>. The program reads one sheet of a
  workbook into a pandas frame, renames and coerces its columns, derives the columns
  \<^verbatim>\<open>status\<close> and \<^verbatim>\<open>valor_total_pago\<close>, splits the frame into paid and
  pending rows, filters both by the sidebar selections and aggregates them for three pages.

  Numbers are kept abstract: the type \<open>'n\<close> stands for the float64 values of pandas, with
  nothing assumed of its addition but that it is a binary operation (in particular neither
  associativity nor commutativity), so every statement about sums holds for floating-point
  addition as it is. Where the views compare amounts, \<open>'n\<close> is linearly ordered (floats
  without NaN).
\<close>

subsection \<open>Cells, frames and the library's conversions\<close>

text \<open>
  A timestamp is a number of nanoseconds since the epoch, a calendar date a number of days
  since the epoch. \<^verbatim>\<open>pd.to_datetime(d)\<close> of a date is its midnight.
\<close>

type_synonym timestamp = int
type_synonym date = int

definition ns_per_day :: int where
  "ns_per_day = 86400000000000"

definition to_datetime_date :: "date \<Rightarrow> timestamp" where
  "to_datetime_date d = d * ns_per_day"

text \<open>
  A cell of the sheet as \<^verbatim>\<open>read_excel\<close> delivers it: empty (NaN), a number, a
  text or a date-time.
\<close>

datatype 'n cell = Blank | Num 'n | Str string | Dt timestamp

text \<open>
  A frame has its column labels, in order, and its rows; a row maps a label to a cell, and a
  label of the frame that a row does not mention is an empty cell there.
\<close>

record 'n dataframe =
  columns :: "string list"
  rows :: "(string \<times> 'n cell) list list"

definition cell_at :: "(string \<times> 'n cell) list \<Rightarrow> string \<Rightarrow> 'n cell" where
  "cell_at row c = (case map_of row c of None \<Rightarrow> Blank | Some v \<Rightarrow> v)"

text \<open>
  What pandas and Python do with a single value, where the program does not decide it:
  \<open>parse_numeric\<close> is \<^verbatim>\<open>pd.to_numeric(errors='coerce')\<close> on a value that is neither a
  number nor missing (None is NaN), \<open>parse_datetime\<close> is
  \<^verbatim>\<open>pd.to_datetime(errors='coerce', dayfirst=True)\<close> on a value that is not missing
  (None is NaT), \<open>str_of\<close> writes a value that is not a text as
  \<^verbatim>\<open>astype(str)\<close> and an f-string do, and the two formats are the f-strings of
  \<^verbatim>\<open>format_currency\<close> and \<^verbatim>\<open>format_foreign_currency\<close>. The last three are \<^verbatim>\<open>str.isdigit\<close>,
  \<^verbatim>\<open>int\<close> on a text (None when it raises ValueError) and \<^verbatim>\<open>str\<close> on
  an integer. They are parameters of the model.

  How a number is written depends on the column that holds it (7 in a column of integers or
  of mixed values, 7.0 in a column of floats, which a column of numbers with an empty cell
  is), so \<open>str_of\<close> is given the cells of the column as well as the value: in the
  normalizer the column as it was read, on a page the column of the frame shown.
\<close>

record 'n library =
  parse_numeric :: "'n cell \<Rightarrow> 'n option"
  parse_datetime :: "'n cell \<Rightarrow> timestamp option"
  str_of :: "'n cell list \<Rightarrow> 'n cell \<Rightarrow> string"
  format_brl :: "'n \<Rightarrow> string"
  format_2f :: "'n \<Rightarrow> string"
  py_isdigit :: "string \<Rightarrow> bool"
  py_int :: "string \<Rightarrow> int option"
  py_str :: "int \<Rightarrow> string"

definition to_numeric :: "'n library \<Rightarrow> 'n cell \<Rightarrow> 'n option" where
  "to_numeric lib c = (case c of Blank \<Rightarrow> None | Num x \<Rightarrow> Some x | _ \<Rightarrow> parse_numeric lib c)"

definition to_datetime :: "'n library \<Rightarrow> 'n cell \<Rightarrow> timestamp option" where
  "to_datetime lib c = (case c of Blank \<Rightarrow> None | _ \<Rightarrow> parse_datetime lib c)"

definition fillna :: "'a \<Rightarrow> 'a option \<Rightarrow> 'a" where
  "fillna d v = (case v of None \<Rightarrow> d | Some x \<Rightarrow> x)"

definition fillna_cell :: "string \<Rightarrow> 'n cell \<Rightarrow> 'n cell" where
  "fillna_cell d c = (case c of Blank \<Rightarrow> Str d | _ \<Rightarrow> c)"

definition astype_str :: "'n library \<Rightarrow> 'n cell list \<Rightarrow> 'n cell \<Rightarrow> string" where
  "astype_str lib col c = (case c of Str s \<Rightarrow> s | _ \<Rightarrow> str_of lib col c)"

definition column_cells :: "(string \<times> 'n cell) list list \<Rightarrow> string \<Rightarrow> 'n cell list" where
  "column_cells rs c = map (\<lambda>row. cell_at row c) rs"

subsection \<open>Errors\<close>

datatype py_error = KeyError string | TypeError string | ValueError string | IndexError string

text \<open>
  \<^verbatim>\<open>load_data\<close> catches every exception, shows a message and returns
  \<^verbatim>\<open>(None, None)\<close>; the left injection below is that outcome, with the message's cause.
\<close>

datatype load_error =
    FileNotFound string
  | SheetNotFound string "string list"
  | LoadFailure py_error

subsection \<open>The normalizer (lines 49 to 60 of \<^verbatim>\<open>load_data\<close>)\<close>

text \<open>The labels with letters outside ASCII are written as their UTF-8 bytes.\<close>

definition Numero_do_RM :: string where
  "Numero_do_RM = ''N'' @ [CHR 0xC3, CHR 0xBA] @ ''mero do RM''"

definition Nao_informado :: string where
  "Nao_informado = ''N'' @ [CHR 0xC3, CHR 0xA3] @ ''o informado''"

definition Nao_informada :: string where
  "Nao_informada = ''N'' @ [CHR 0xC3, CHR 0xA3] @ ''o informada''"

definition rename_map :: "(string \<times> string) list" where
  "rename_map =
    [(''Data de Pagamento'', ''data_pagamento''), (''Valor em R$'', ''valor_principal_rs''),
     (Numero_do_RM, ''numero_rm''), (''Correspondente'', ''correspondente''),
     (''ND recebida'', ''nd_recebida''), (''IOF'', ''iof''), (''TX CONTRATO'', ''tx_contrato''),
     (''IRRF'', ''irrf''), (''CIDE'', ''cide''), (''Moeda'', ''moeda''),
     (''Valor'', ''valor_moeda_origem'')]"

definition rename_label :: "string \<Rightarrow> string" where
  "rename_label h = (case map_of rename_map h of None \<Rightarrow> h | Some c \<Rightarrow> c)"

definition rename_columns :: "'n dataframe \<Rightarrow> 'n dataframe" where
  "rename_columns df =
    \<lparr>columns = map rename_label (columns df),
     rows = map (map (\<lambda>(h, v). (rename_label h, v))) (rows df)\<rparr>"

definition cols_to_keep :: "string list" where
  "cols_to_keep =
    [''data_pagamento'', ''valor_principal_rs'', ''numero_rm'', ''correspondente'',
     ''nd_recebida'', ''iof'', ''tx_contrato'', ''irrf'', ''cide'', ''moeda'',
     ''valor_moeda_origem'']"

text \<open>
  \<^verbatim>\<open>df[[col for col in cols_to_keep if col in df.columns]]\<close>: the kept labels in the
  order of \<open>cols_to_keep\<close>; a label the frame carries twice is selected twice.
\<close>

definition select_columns :: "'n dataframe \<Rightarrow> 'n dataframe" where
  "select_columns df =
    \<lparr>columns = concat (map (\<lambda>c. filter ((=) c) (columns df)) cols_to_keep),
     rows = map (filter (\<lambda>(h, v). h \<in> set cols_to_keep)) (rows df)\<rparr>"

definition numeric_cols :: "string list" where
  "numeric_cols =
    [''valor_principal_rs'', ''iof'', ''tx_contrato'', ''irrf'', ''cide'', ''valor_moeda_origem'']"

text \<open>
  Lines 53 to 58 read the columns \<^verbatim>\<open>df[col]\<close> in this order: the numeric ones,
  four texts, the date. Reading a label the frame does not have raises KeyError. A label
  the frame has twice yields a frame, not a series: \<^verbatim>\<open>to_numeric\<close> raises TypeError
  on it and \<^verbatim>\<open>to_datetime\<close> ValueError, while \<^verbatim>\<open>fillna\<close> and
  \<^verbatim>\<open>astype\<close> work on both columns and the load goes on.
\<close>

datatype col_kind = Numeric | Text | Datetime

definition accessed_cols :: "(string \<times> col_kind) list" where
  "accessed_cols =
    map (\<lambda>c. (c, Numeric)) numeric_cols
    @ [(''numero_rm'', Text), (''nd_recebida'', Text), (''correspondente'', Text),
       (''moeda'', Text), (''data_pagamento'', Datetime)]"

fun require_columns :: "'n dataframe \<Rightarrow> (string \<times> col_kind) list \<Rightarrow> py_error option" where
  "require_columns df [] = None"
| "require_columns df ((c, k) # cs) =
    (case filter ((=) c) (columns df) of
       [] \<Rightarrow> Some (KeyError c)
     | [x] \<Rightarrow> require_columns df cs
     | x # y # zs \<Rightarrow>
         (case k of
            Numeric \<Rightarrow> Some (TypeError c)
          | Datetime \<Rightarrow> Some (ValueError c)
          | Text \<Rightarrow> require_columns df cs))"

text \<open>
  A record has one value for each field. Of a text label the frame carries twice it holds
  the first column; the filters and the pages below are those of a frame whose labels are
  all different.
\<close>

record 'n invoice =
  data_pagamento :: "timestamp option"
  valor_principal_rs :: 'n
  numero_rm :: string
  correspondente :: "'n cell"
  nd_recebida :: string
  iof :: 'n
  tx_contrato :: 'n
  irrf :: 'n
  cide :: 'n
  moeda :: "'n cell"
  valor_moeda_origem :: 'n
  status :: string
  valor_total_pago :: 'n

text \<open>
  The column statements of lines 53 to 60 work cell by cell, each row on its own, so the
  model applies them row by row (\<open>rs\<close> are the rows of the frame, for the columns that
  \<^verbatim>\<open>astype(str)\<close> looks at): the numeric columns through
  \<^verbatim>\<open>to_numeric(errors='coerce').fillna(0)\<close> (\<open>coerce_amount\<close>), the texts through \<^verbatim>\<open>fillna\<close>
  (and \<^verbatim>\<open>astype(str)\<close> for two of them), the date through \<^verbatim>\<open>to_datetime\<close>,
  then the status from \<^verbatim>\<open>pd.notna\<close> of the date and the total as the sum, from
  left to right, of five amounts.
\<close>

definition coerce_amount :: "('n::zero) library \<Rightarrow> 'n cell \<Rightarrow> 'n" where
  "coerce_amount lib c = fillna 0 (to_numeric lib c)"

definition normalize_row ::
  "('n::{zero,plus}) library \<Rightarrow> (string \<times> 'n cell) list list \<Rightarrow> (string \<times> 'n cell) list \<Rightarrow> 'n invoice" where
  "normalize_row lib rs row =
    (let vp = coerce_amount lib (cell_at row ''valor_principal_rs'');
         io = coerce_amount lib (cell_at row ''iof'');
         tx = coerce_amount lib (cell_at row ''tx_contrato'');
         ir = coerce_amount lib (cell_at row ''irrf'');
         ci = coerce_amount lib (cell_at row ''cide'');
         vm = coerce_amount lib (cell_at row ''valor_moeda_origem'');
         dp = to_datetime lib (cell_at row ''data_pagamento'')
     in \<lparr>data_pagamento = dp,
         valor_principal_rs = vp,
         numero_rm = astype_str lib (column_cells rs ''numero_rm'')
                       (fillna_cell Nao_informado (cell_at row ''numero_rm'')),
         correspondente = fillna_cell Nao_informado (cell_at row ''correspondente''),
         nd_recebida = astype_str lib (column_cells rs ''nd_recebida'')
                         (fillna_cell Nao_informada (cell_at row ''nd_recebida'')),
         iof = io,
         tx_contrato = tx,
         irrf = ir,
         cide = ci,
         moeda = fillna_cell ''N/A'' (cell_at row ''moeda''),
         valor_moeda_origem = vm,
         status = (if dp \<noteq> None then ''Pago'' else ''Pendente''),
         valor_total_pago = vp + io + tx + ir + ci\<rparr>)"

definition normalize_frame :: "('n::{zero,plus}) library \<Rightarrow> 'n dataframe \<Rightarrow> py_error + 'n invoice list" where
  "normalize_frame lib raw =
    (let df = select_columns (rename_columns raw)
     in case require_columns df accessed_cols of
          Some e \<Rightarrow> Inl e
        | None \<Rightarrow> Inr (map (normalize_row lib (rows df)) (rows df)))"

subsection \<open>The partitioner (line 61) and \<^verbatim>\<open>load_data\<close>\<close>

definition partition_status :: "'n invoice list \<Rightarrow> 'n invoice list \<times> 'n invoice list" where
  "partition_status df =
    (filter (\<lambda>r. status r = ''Pago'') df, filter (\<lambda>r. status r = ''Pendente'') df)"

text \<open>
  The file system maps a path to the workbook found there, a workbook being its sheets by
  name, each as the frame \<^verbatim>\<open>read_excel(skiprows=1)\<close> makes of it. The password only
  sets a field of the in-memory copy of the sheet and changes nothing that is read.
\<close>

type_synonym 'n workbook = "(string \<times> 'n dataframe) list"

definition load_data ::
  "('n::{zero,plus}) library \<Rightarrow> (string \<Rightarrow> 'n workbook option) \<Rightarrow> string \<Rightarrow> string \<Rightarrow> string
     \<Rightarrow> load_error + ('n invoice list \<times> 'n invoice list)" where
  "load_data lib fs file_path sheet_name password =
    (case fs file_path of
       None \<Rightarrow> Inl (FileNotFound file_path)
     | Some workbook \<Rightarrow>
         (case map_of workbook sheet_name of
            None \<Rightarrow> Inl (SheetNotFound sheet_name (map fst workbook))
          | Some raw \<Rightarrow>
              (case normalize_frame lib raw of
                 Inl e \<Rightarrow> Inl (LoadFailure e)
               | Inr df \<Rightarrow> Inr (partition_status df))))"

subsection \<open>The global filters (lines 184 to 189)\<close>

text \<open>
  \<^verbatim>\<open>Series.between(left, right)\<close> includes both ends and is false on NaT;
  \<^verbatim>\<open>Series.isin(values)\<close> is membership.
\<close>

definition between :: "timestamp option \<Rightarrow> timestamp \<Rightarrow> timestamp \<Rightarrow> bool" where
  "between v left right = (case v of None \<Rightarrow> False | Some t \<Rightarrow> left \<le> t \<and> t \<le> right)"

definition isin :: "'a \<Rightarrow> 'a list \<Rightarrow> bool" where
  "isin x values = (x \<in> set values)"

text \<open>
  \<open>date_range\<close> is what the date widget returns: a tuple of no, one or two dates. The
  date filter runs only on a tuple of two, and only on the paid frame.
\<close>

definition filter_pago ::
  "date list \<Rightarrow> 'n cell list \<Rightarrow> string list \<Rightarrow> 'n invoice list \<Rightarrow> 'n invoice list" where
  "filter_pago date_range selected_correspondentes selected_rms df_pago =
    (let df =
       (if length date_range = 2
        then filter (\<lambda>r. between (data_pagamento r) (to_datetime_date (date_range ! 0))
                           (to_datetime_date (date_range ! 1))) df_pago
        else df_pago)
     in filter (\<lambda>r. isin (correspondente r) selected_correspondentes
                   \<and> isin (numero_rm r) selected_rms) df)"

definition filter_pendente ::
  "'n cell list \<Rightarrow> string list \<Rightarrow> 'n invoice list \<Rightarrow> 'n invoice list" where
  "filter_pendente selected_correspondentes selected_rms df_pendente =
    filter (\<lambda>r. isin (correspondente r) selected_correspondentes
               \<and> isin (numero_rm r) selected_rms) df_pendente"

text \<open>
  Lines 173 and 174: the date widget is bounded by the days of the earliest and of the latest
  payment of the paid frame, and these two days are its value until the user picks others.
  \<^verbatim>\<open>Timestamp.date()\<close> forgets the time of day. Of a frame without rows the two are
  NaT (None), and what becomes of that is the library's.
\<close>

definition timestamp_date :: "timestamp \<Rightarrow> date" where
  "timestamp_date t = t div ns_per_day"

definition series_min_max :: "timestamp option list \<Rightarrow> (timestamp \<times> timestamp) option" where
  "series_min_max vs =
    (case List.map_filter (\<lambda>v. v) vs of
       [] \<Rightarrow> None
     | t # ts \<Rightarrow> Some (foldl min t ts, foldl max t ts))"

definition min_max_date :: "'n invoice list \<Rightarrow> (date \<times> date) option" where
  "min_max_date df_pago =
    map_option (\<lambda>(lo, hi). (timestamp_date lo, timestamp_date hi))
      (series_min_max (map data_pagamento df_pago))"

text \<open>The four frames the script holds, and the filter step as a step on them.\<close>

record 'n session =
  df_pago_original :: "'n invoice list"
  df_pendente_original :: "'n invoice list"
  df_pago_filtered :: "'n invoice list"
  df_pendente_filtered :: "'n invoice list"

definition apply_filters ::
  "date list \<Rightarrow> 'n cell list \<Rightarrow> string list \<Rightarrow> 'n session \<Rightarrow> 'n session" where
  "apply_filters date_range selected_correspondentes selected_rms s =
    s\<lparr>df_pago_filtered :=
        filter_pago date_range selected_correspondentes selected_rms (df_pago_original s),
      df_pendente_filtered :=
        filter_pendente selected_correspondentes selected_rms (df_pendente_original s)\<rparr>"

subsection \<open>Series and group operations\<close>

definition bind_err :: "'e + 'a \<Rightarrow> ('a \<Rightarrow> 'e + 'b) \<Rightarrow> 'e + 'b" where
  "bind_err m f = (case m of Inl e \<Rightarrow> Inl e | Inr x \<Rightarrow> f x)"

text \<open>The sum of a series accumulates from the left, starting at 0; of no value it is 0.\<close>

definition series_sum :: "('n::{zero,plus}) list \<Rightarrow> 'n" where
  "series_sum vs = foldl (+) 0 vs"

text \<open>
  A series is a list of labelled values. \<^verbatim>\<open>idxmax\<close> is the label of the first
  largest value and raises on an empty series; \<^verbatim>\<open>max\<close> of an empty series is NaN.
\<close>

fun idxmax :: "('k \<times> 'n::linorder) list \<Rightarrow> py_error + 'k" where
  "idxmax [] = Inl (ValueError ''attempt to get argmax of an empty sequence'')"
| "idxmax (kv # kvs) =
    Inr (fst (foldl (\<lambda>best kv'. if snd best < snd kv' then kv' else best) kv kvs))"

fun series_max :: "('k \<times> 'n::linorder) list \<Rightarrow> 'n option" where
  "series_max [] = None"
| "series_max (kv # kvs) = Some (foldl max (snd kv) (map snd kvs))"

text \<open>
  \<^verbatim>\<open>groupby\<close> lists each key once, the keys sorted. Texts sort byte by byte, which
  for UTF-8 is the order of the code points. Keys of the counterparty column are cells: the
  rank below sorts cells of one kind in their own order; between kinds it puts numbers
  before texts, which is a choice of the model.
\<close>

definition cell_rank :: "'n cell \<Rightarrow> nat \<times> 'n list \<times> string \<times> int" where
  "cell_rank c =
    (case c of Blank \<Rightarrow> (3, [], [], 0) | Num x \<Rightarrow> (0, [x], [], 0)
     | Str s \<Rightarrow> (1, [], s, 0) | Dt t \<Rightarrow> (2, [], [], t))"

definition group_keys :: "('k \<Rightarrow> 'o::linorder) \<Rightarrow> ('r \<Rightarrow> 'k) \<Rightarrow> 'r list \<Rightarrow> 'k list" where
  "group_keys rank key df = sort_key rank (remdups (map key df))"

definition groupby_sum ::
  "('k \<Rightarrow> 'o::linorder) \<Rightarrow> ('r \<Rightarrow> 'k) \<Rightarrow> ('r \<Rightarrow> 'n::{zero,plus}) \<Rightarrow> 'r list \<Rightarrow> ('k \<times> 'n) list" where
  "groupby_sum rank key val df =
    map (\<lambda>k. (k, series_sum (map val (filter (\<lambda>r. key r = k) df)))) (group_keys rank key df)"

text \<open>
  Sorting by value, largest first. Rows of equal value keep their order, as
  \<^verbatim>\<open>nlargest\<close> has it; \<^verbatim>\<open>sort_values\<close> leaves their order open, and the
  model keeps it there too.
\<close>

definition sort_desc :: "('a \<Rightarrow> 'n::linorder) \<Rightarrow> 'a list \<Rightarrow> 'a list" where
  "sort_desc val xs = rev (sort_key val (rev xs))"

definition nlargest :: "nat \<Rightarrow> ('a \<Rightarrow> 'n::linorder) \<Rightarrow> 'a list \<Rightarrow> 'a list" where
  "nlargest n val xs = take n (sort_desc val xs)"

subsection \<open>Formatting\<close>

text \<open>Both formats test \<^verbatim>\<open>pd.isna\<close> first; None is NaN.\<close>

definition format_currency :: "'n library \<Rightarrow> 'n option \<Rightarrow> string" where
  "format_currency lib v = (case v of None \<Rightarrow> ''R$ 0,00'' | Some x \<Rightarrow> format_brl lib x)"

definition format_foreign_currency :: "'n library \<Rightarrow> 'n option \<Rightarrow> string" where
  "format_foreign_currency lib v = (case v of None \<Rightarrow> ''0.00'' | Some x \<Rightarrow> format_2f lib x)"

subsection \<open>The pages\<close>

text \<open>
  A page is modelled by the values it computes and hands to the display: the metrics
  (label, value, help), the tables, and the data of each chart before plotly reshapes it
  (the melt, the merge and the percentages of the bar charts are left to the chart). Where a
  page shows a chart or a table only for a frame with rows, the value is optional or is the
  message shown in its place.
\<close>

datatype 'a shown = Info string | Table 'a

definition Nao_ha :: string where
  "Nao_ha = ''N'' @ [CHR 0xC3, CHR 0xA3] @ ''o h'' @ [CHR 0xC3, CHR 0xA1]"

text \<open>
  The components of the stacked bars, in the order of the keys of \<^verbatim>\<open>legend_map\<close>:
  per counterparty the sum of each component, and the sum of these sums
  (\<^verbatim>\<open>sum(axis=1)\<close>).
\<close>

definition legend_components :: "('n invoice \<Rightarrow> 'n) list" where
  "legend_components = [valor_principal_rs, iof, irrf, cide, tx_contrato]"

definition pagamentos_por_correspondente ::
  "('n::{zero,plus,linorder}) invoice list \<Rightarrow> ('n cell \<times> 'n list \<times> 'n) list" where
  "pagamentos_por_correspondente df =
    map (\<lambda>k. let rs = filter (\<lambda>r. correspondente r = k) df;
                 sums = map (\<lambda>component. series_sum (map component rs)) legend_components
             in (k, sums, series_sum sums))
      (group_keys cell_rank correspondente df)"

subsubsection \<open>\<^verbatim>\<open>display_visao_geral\<close>\<close>

text \<open>
  Lines 73 to 77: the total, the row of the largest invoice, the reference number and the
  counterparty of the largest grouped total, and the two grouped series. A frame is
  \<^verbatim>\<open>empty\<close> when it has no row.
\<close>

definition overview_kpis ::
  "('n::{zero,plus,linorder}) invoice list \<Rightarrow>
     py_error + ('n \<times> 'n invoice option \<times> string \<times> 'n cell \<times> (string \<times> 'n) list \<times> ('n cell \<times> 'n) list)" where
  "overview_kpis df_pago =
    (if df_pago \<noteq> [] then
       bind_err (idxmax (map (\<lambda>r. (r, valor_total_pago r)) df_pago)) (\<lambda>maior_fatura_row.
         let rm_group = groupby_sum (\<lambda>k. k) numero_rm valor_total_pago df_pago;
             corr_group = groupby_sum cell_rank correspondente valor_total_pago df_pago
         in bind_err (if rm_group \<noteq> [] then idxmax rm_group else Inr ''N/A'') (\<lambda>rm.
            bind_err (if corr_group \<noteq> [] then idxmax corr_group else Inr (Str ''N/A'')) (\<lambda>corr.
              Inr (series_sum (map valor_total_pago df_pago), Some maior_fatura_row, rm, corr,
                   rm_group, corr_group))))
     else Inr (0, None, ''N/A'', Str ''N/A'', [], []))"

record 'n visao_geral =
  valor_total_geral_pago :: 'n
  maior_fatura_row :: "'n invoice option"
  rm_maior_desembolso :: string
  corr_maior_pago :: "'n cell"
  metrics :: "(string \<times> 'n cell \<times> string option) list"
  fig_bar_stacked :: "(nat \<times> ('n cell \<times> 'n list \<times> 'n) list) option"
  fig_treemap :: "('n cell \<times> 'n) list option"

definition display_visao_geral ::
  "('n::{zero,plus,linorder}) library \<Rightarrow> bool \<Rightarrow> 'n invoice list \<Rightarrow> py_error + 'n visao_geral" where
  "display_visao_geral lib show_all df_pago =
    bind_err (overview_kpis df_pago) (\<lambda>(total, row, rm, corr, rm_group, corr_group).
      Inr \<lparr>valor_total_geral_pago = total,
           maior_fatura_row = row,
           rm_maior_desembolso = rm,
           corr_maior_pago = corr,
           metrics =
             [(''Valor Total Pago'', Str (format_currency lib (Some total)), None),
              (''Maior Fatura Paga'',
               (case row of None \<Rightarrow> Str ''N/A''
                | Some r \<Rightarrow> Str (format_currency lib (Some (valor_total_pago r)))),
               Some (case row of None \<Rightarrow> []
                     | Some r \<Rightarrow> ''ND: '' @ nd_recebida r @ '' | Corr: ''
                                  @ astype_str lib (map correspondente df_pago) (correspondente r))),
              (''RM com Maior Desembolso'', Str rm,
               Some (''Valor: '' @ (if rm_group \<noteq> [] then format_currency lib (series_max rm_group)
                                    else ''R$ 0,00''))),
              (''Correspondente com Maior Desembolso'', corr,
               Some (''Valor: '' @ (if corr_group \<noteq> [] then format_currency lib (series_max corr_group)
                                    else ''R$ 0,00'')))],
           fig_bar_stacked =
             (if df_pago \<noteq> [] then
                (let pag_por_corr = pagamentos_por_correspondente df_pago;
                     top_n = (if show_all then length pag_por_corr else 20)
                 in Some (top_n, nlargest top_n (\<lambda>(k, sums, total). total) pag_por_corr))
              else None),
           fig_treemap =
             (if df_pago \<noteq> [] then Some (map (\<lambda>r. (correspondente r, valor_total_pago r)) df_pago)
              else None)\<rparr>)"

subsubsection \<open>\<^verbatim>\<open>display_rm_detalhado\<close>\<close>

text \<open>
  \<^verbatim>\<open>max\<close> of an empty list and \<^verbatim>\<open>xs[0]\<close> of an empty list raise;
  \<^verbatim>\<open>int(r)\<close> raises where the library says so.
\<close>

fun py_max :: "int list \<Rightarrow> py_error + int" where
  "py_max [] = Inl (ValueError ''max() arg is an empty sequence'')"
| "py_max (x # xs) = Inr (foldl max x xs)"

fun first :: "'a list \<Rightarrow> py_error + 'a" where
  "first [] = Inl (IndexError ''list index out of range'')"
| "first (x # xs) = Inr x"

fun ints_of :: "'n library \<Rightarrow> string list \<Rightarrow> py_error + int list" where
  "ints_of lib [] = Inr []"
| "ints_of lib (r # rs) =
    (case py_int lib r of
       None \<Rightarrow> Inl (ValueError r)
     | Some i \<Rightarrow> bind_err (ints_of lib rs) (\<lambda>is. Inr (i # is)))"

text \<open>
  \<open>rm_selecionados\<close> is what the multiselect returns. The chart holds the paid rows of the
  selected reference numbers, the table all their rows, with the amounts formatted.
\<close>

record 'n rm_detalhado =
  lista_rms :: "string list"
  default_rm_val :: "string list"
  fig_bar_rm :: "('n cell \<times> 'n list \<times> 'n) list shown option"
  df_tabela :: "(string \<times> 'n cell \<times> string list) list option"

definition display_rm_detalhado ::
  "('n::{zero,plus,linorder}) library \<Rightarrow> string list \<Rightarrow> 'n invoice list \<Rightarrow> 'n invoice list
     \<Rightarrow> py_error + 'n rm_detalhado" where
  "display_rm_detalhado lib rm_selecionados df_pago df_pendente =
    (let df_completo = df_pago @ df_pendente;
         lista = sort (remdups (map numero_rm df_completo))
     in bind_err (ints_of lib (filter (py_isdigit lib) lista)) (\<lambda>numeric_rms.
        bind_err (if numeric_rms \<noteq> [] then bind_err (py_max numeric_rms) (\<lambda>m. Inr [py_str lib m])
                  else if lista \<noteq> [] then bind_err (first lista) (\<lambda>x. Inr [x])
                  else Inr []) (\<lambda>default.
          let df_rm = filter (\<lambda>r. isin (numero_rm r) rm_selecionados) df_completo;
              df_rm_pago = filter (\<lambda>r. status r = ''Pago'') df_rm
          in Inr \<lparr>lista_rms = lista,
                  default_rm_val = default,
                  fig_bar_rm =
                    (if rm_selecionados \<noteq> [] then
                       Some (if df_rm_pago \<noteq> [] then Table (pagamentos_por_correspondente df_rm_pago)
                             else Info (Nao_ha @ '' pagamentos para os RMs selecionados.''))
                     else None),
                  df_tabela =
                    (if rm_selecionados \<noteq> [] then
                       Some (map (\<lambda>r. (nd_recebida r, correspondente r,
                                       map (\<lambda>v. format_currency lib (Some v))
                                         [iof r, tx_contrato r, valor_principal_rs r, irrf r,
                                          cide r, valor_total_pago r])) df_rm)
                     else None)\<rparr>)))"

subsubsection \<open>\<^verbatim>\<open>display_correspondentes\<close>\<close>

text \<open>
  The pending rows are grouped by counterparty and currency, with the number of rows and
  the sum of the amounts in the foreign currency of each group.
\<close>

definition groupby_count_sum ::
  "('k \<Rightarrow> 'o::linorder) \<Rightarrow> ('r \<Rightarrow> 'k) \<Rightarrow> ('r \<Rightarrow> 'n::{zero,plus}) \<Rightarrow> 'r list \<Rightarrow> ('k \<times> nat \<times> 'n) list" where
  "groupby_count_sum rank key val df =
    map (\<lambda>k. let vs = map val (filter (\<lambda>r. key r = k) df) in (k, length vs, series_sum vs))
      (group_keys rank key df)"

record 'n correspondentes =
  ranking :: "('n cell \<times> string) list shown"
  fig_pie :: "('n cell \<times> 'n) list option"
  pendencias :: "(('n cell \<times> 'n cell) \<times> nat \<times> string) list shown"

text \<open>No statement of this page can raise, so its model returns the page itself.\<close>

definition display_correspondentes ::
  "('n::{zero,plus,linorder}) library \<Rightarrow> 'n invoice list \<Rightarrow> 'n invoice list \<Rightarrow> 'n correspondentes" where
  "display_correspondentes lib df_pago df_pendente =
    \<lparr>ranking =
       (if df_pago \<noteq> [] then
          Table (map (\<lambda>(k, v). (k, format_currency lib (Some v)))
                   (sort_desc snd (groupby_sum cell_rank correspondente valor_total_pago df_pago)))
        else Info (Nao_ha @ '' pagamentos para exibir o ranking.'')),
     fig_pie =
       (if df_pago \<noteq> [] then
          Some (nlargest 10 snd (groupby_sum cell_rank correspondente valor_total_pago df_pago))
        else None),
     pendencias =
       (if df_pendente \<noteq> [] then
          Table (map (\<lambda>(k, n, v). (k, n, format_foreign_currency lib (Some v)))
                   (sort_desc (\<lambda>(k, n, v). v)
                      (groupby_count_sum (\<lambda>(c, m). (cell_rank c, cell_rank m))
                         (\<lambda>r. (correspondente r, moeda r)) valor_moeda_origem df_pendente)))
        else Info (Nao_ha @ '' faturas pendentes.''))\<rparr>"

subsection \<open>A sample workbook\<close>

definition sample_lib :: "int library" where
  "sample_lib =
    \<lparr>parse_numeric = (\<lambda>c. None), parse_datetime = (\<lambda>c. case c of Dt t \<Rightarrow> Some t | _ \<Rightarrow> None),
     str_of = (\<lambda>col c. ''?''), format_brl = (\<lambda>x. ''R$''), format_2f = (\<lambda>x. ''0.00''),
     py_isdigit = (\<lambda>s. False), py_int = (\<lambda>s. None), py_str = (\<lambda>i. ''0'')\<rparr>"

definition sample_row ::
  "int cell \<Rightarrow> int cell \<Rightarrow> int cell \<Rightarrow> int cell \<Rightarrow> int cell \<Rightarrow> (string \<times> int cell) list" where
  "sample_row dp vp rm co io =
    [(''Data de Pagamento'', dp), (''Valor em R$'', vp), (Numero_do_RM, rm),
     (''Correspondente'', co), (''ND recebida'', Str ''ND1''), (''IOF'', io),
     (''TX CONTRATO'', Num 2), (''IRRF'', Num 3), (''CIDE'', Blank), (''Moeda'', Str ''USD''),
     (''Valor'', Num 7), (''Obs'', Str ''x'')]"

definition sample_sheet :: "int dataframe" where
  "sample_sheet =
    \<lparr>columns = [''Data de Pagamento'', ''Valor em R$'', Numero_do_RM, ''Correspondente'',
       ''ND recebida'', ''IOF'', ''TX CONTRATO'', ''IRRF'', ''CIDE'', ''Moeda'', ''Valor'', ''Obs''],
     rows = [sample_row (Dt 100) (Num 10) (Str ''7'') (Str ''Acme'') (Num 1),
             sample_row Blank (Str ''abc'') Blank Blank Blank]\<rparr>"

definition sample_fs :: "string \<Rightarrow> int workbook option" where
  "sample_fs p = (if p = ''faturas.xlsx'' then Some [(''Dados'', sample_sheet)] else None)"

definition sample_paid :: "int invoice" where
  "sample_paid =
    \<lparr>data_pagamento = Some 100, valor_principal_rs = 10, numero_rm = ''7'',
     correspondente = Str ''Acme'', nd_recebida = ''ND1'', iof = 1, tx_contrato = 2, irrf = 3,
     cide = 0, moeda = Str ''USD'', valor_moeda_origem = 7, status = ''Pago'',
     valor_total_pago = 16\<rparr>"

definition sample_pending :: "int invoice" where
  "sample_pending =
    \<lparr>data_pagamento = None, valor_principal_rs = 0, numero_rm = Nao_informado,
     correspondente = Str Nao_informado, nd_recebida = ''ND1'', iof = 0, tx_contrato = 2,
     irrf = 3, cide = 0, moeda = Str ''USD'', valor_moeda_origem = 7, status = ''Pendente'',
     valor_total_pago = 5\<rparr>"

text \<open>The same sheet without its IOF column, and a sheet with a negative amount.\<close>

definition sample_sheet_no_iof :: "int dataframe" where
  "sample_sheet_no_iof =
    \<lparr>columns = filter (\<lambda>h. h \<noteq> ''IOF'') (columns sample_sheet),
     rows = map (filter (\<lambda>(h, v). h \<noteq> ''IOF'')) (rows sample_sheet)\<rparr>"

definition sample_fs_no_iof :: "string \<Rightarrow> int workbook option" where
  "sample_fs_no_iof p = (if p = ''faturas.xlsx'' then Some [(''Dados'', sample_sheet_no_iof)] else None)"

definition sample_sheet_negative :: "int dataframe" where
  "sample_sheet_negative =
    \<lparr>columns = columns sample_sheet,
     rows = [sample_row (Dt 100) (Num (- 5)) (Str ''7'') (Str ''Acme'') (Num 1)]\<rparr>"

definition sample_fs_negative :: "string \<Rightarrow> int workbook option" where
  "sample_fs_negative p =
    (if p = ''faturas.xlsx'' then Some [(''Dados'', sample_sheet_negative)] else None)"

definition sample_negative :: "int invoice" where
  "sample_negative = sample_paid\<lparr>valor_principal_rs := - 5, valor_total_pago := 1\<rparr>"

text \<open>A paid record dated at the midnight of a given day.\<close>

definition paid_on :: "date \<Rightarrow> int invoice" where
  "paid_on d = sample_paid\<lparr>data_pagamento := Some (to_datetime_date d)\<rparr>"

text \<open>A paid record dated at noon of a given day.\<close>

definition paid_at_noon :: "date \<Rightarrow> int invoice" where
  "paid_at_noon d = sample_paid\<lparr>data_pagamento := Some (to_datetime_date d + 43200000000000)\<rparr>"

text \<open>
  The text of the one character U+00B2 (superscript two), in UTF-8, a library that has of
  it what Python has (\<^verbatim>\<open>isdigit\<close> holds, \<^verbatim>\<open>int\<close> raises ValueError), and
  a pending and a paid record with that reference number.
\<close>

definition superscript_two :: string where
  "superscript_two = [CHR 0xC2, CHR 0xB2]"

definition superscript_lib :: "int library" where
  "superscript_lib =
    sample_lib\<lparr>py_isdigit := (\<lambda>s. s = superscript_two), py_int := (\<lambda>s. None)\<rparr>"

definition pending_superscript :: "int invoice" where
  "pending_superscript = sample_pending\<lparr>numero_rm := superscript_two\<rparr>"

definition paid_superscript :: "int invoice" where
  "paid_superscript = sample_paid\<lparr>numero_rm := superscript_two\<rparr>"

section \<open>Properties\<close>

subsection \<open>Helper lemmas\<close>

lemma load_data_Inr:
  "load_data lib fs p s pw = Inr (pago, pend) \<Longrightarrow>
     \<exists>wb raw df. fs p = Some wb \<and> map_of wb s = Some raw \<and> normalize_frame lib raw = Inr df
        \<and> pago = filter (\<lambda>r. status r = ''Pago'') df
        \<and> pend = filter (\<lambda>r. status r = ''Pendente'') df"
  by (auto simp: load_data_def partition_status_def split: option.splits sum.splits)

lemma normalize_frame_Inr:
  "normalize_frame lib raw = Inr df \<Longrightarrow>
     df = map (normalize_row lib (rows (select_columns (rename_columns raw))))
           (rows (select_columns (rename_columns raw)))"
  by (auto simp: normalize_frame_def Let_def split: option.splits)

lemma load_data_sample:
  "load_data sample_lib sample_fs ''faturas.xlsx'' ''Dados'' ''pw'' = Inr ([sample_paid], [sample_pending])"
  by (simp add: load_data_def sample_fs_def sample_sheet_def sample_row_def normalize_frame_def
      rename_columns_def select_columns_def rename_label_def rename_map_def cols_to_keep_def
      accessed_cols_def numeric_cols_def normalize_row_def coerce_amount_def cell_at_def to_numeric_def
      to_datetime_def fillna_def fillna_cell_def astype_str_def column_cells_def sample_lib_def
      partition_status_def sample_paid_def sample_pending_def Numero_do_RM_def
      Nao_informado_def Nao_informada_def Let_def)

lemma normalize_frame_records:
  assumes "normalize_frame lib raw = Inr df" and "r \<in> set df"
  shows "\<exists>rs row. r = normalize_row lib rs row"
proof -
  have "df = map (normalize_row lib (rows (select_columns (rename_columns raw))))
           (rows (select_columns (rename_columns raw)))"
    using assms(1) by (rule normalize_frame_Inr)
  with assms(2) show ?thesis by auto
qed

lemma load_data_records:
  assumes "load_data lib fs p s pw = Inr (pago, pend)" and "r \<in> set pago \<union> set pend"
  shows "\<exists>rs row. r = normalize_row lib rs row"
proof -
  from assms(1) obtain raw df where df: "normalize_frame lib raw = Inr df"
    and pago: "pago = filter (\<lambda>r. status r = ''Pago'') df"
    and pend: "pend = filter (\<lambda>r. status r = ''Pendente'') df"
    by (blast dest: load_data_Inr)
  from assms(2) pago pend have "r \<in> set df" by auto
  with df show ?thesis by (rule normalize_frame_records)
qed

lemma normalize_row_total:
  "valor_total_pago (normalize_row lib rs row) =
     valor_principal_rs (normalize_row lib rs row) + iof (normalize_row lib rs row)
       + tx_contrato (normalize_row lib rs row) + irrf (normalize_row lib rs row)
       + cide (normalize_row lib rs row)"
  by (simp add: normalize_row_def Let_def)

lemma normalize_row_status:
  "status (normalize_row lib rs row) =
     (if data_pagamento (normalize_row lib rs row) \<noteq> None then ''Pago'' else ''Pendente'')"
  by (simp add: normalize_row_def Let_def)

lemma normalize_frame_sample:
  "normalize_frame sample_lib sample_sheet = Inr [sample_paid, sample_pending]"
  by (simp add: sample_sheet_def sample_row_def normalize_frame_def
      rename_columns_def select_columns_def rename_label_def rename_map_def cols_to_keep_def
      accessed_cols_def numeric_cols_def normalize_row_def coerce_amount_def cell_at_def to_numeric_def
      to_datetime_def fillna_def fillna_cell_def astype_str_def column_cells_def sample_lib_def
      sample_paid_def sample_pending_def Numero_do_RM_def
      Nao_informado_def Nao_informada_def Let_def)

subsection \<open>The total paid\<close>

text \<open>
  Claim C1. Every record of the normalized frame, and so every record of the two frames
  \<^verbatim>\<open>load_data\<close> returns, has \<^verbatim>\<open>valor_total_pago\<close> equal to
  \<^verbatim>\<open>valor_principal_rs + iof + tx_contrato + irrf + cide\<close>, added from left to right
  with the addition of the number type, of which nothing is assumed.
\<close>

theorem total_paid_is_sum:
  fixes lib :: "('n::{zero,plus}) library"
  shows "(normalize_frame lib raw = Inr df \<and> r \<in> set df \<longrightarrow>
            valor_total_pago r = valor_principal_rs r + iof r + tx_contrato r + irrf r + cide r)
       \<and> (load_data lib fs p s pw = Inr (pago, pend) \<and> q \<in> set pago \<union> set pend \<longrightarrow>
            valor_total_pago q = valor_principal_rs q + iof q + tx_contrato q + irrf q + cide q)"
proof (intro conjI impI; elim conjE)
  assume "normalize_frame lib raw = Inr df" and "r \<in> set df"
  then obtain rs row where "r = normalize_row lib rs row"
    by (blast dest: normalize_frame_records)
  then show "valor_total_pago r = valor_principal_rs r + iof r + tx_contrato r + irrf r + cide r"
    by (simp add: normalize_row_total)
next
  assume "load_data lib fs p s pw = Inr (pago, pend)" and "q \<in> set pago \<union> set pend"
  then obtain rs row where "q = normalize_row lib rs row"
    by (blast dest: load_data_records)
  then show "valor_total_pago q = valor_principal_rs q + iof q + tx_contrato q + irrf q + cide q"
    by (simp add: normalize_row_total)
qed

theorem total_paid_is_sum_witness:
  "normalize_frame sample_lib sample_sheet = Inr [sample_paid, sample_pending]
   \<and> sample_paid \<in> set [sample_paid, sample_pending]
   \<and> valor_total_pago sample_paid = 10 + 1 + 2 + 3 + 0
   \<and> load_data sample_lib sample_fs ''faturas.xlsx'' ''Dados'' ''pw'' = Inr ([sample_paid], [sample_pending])
   \<and> sample_pending \<in> set [sample_paid] \<union> set [sample_pending]
   \<and> valor_total_pago sample_pending = 0 + 0 + 2 + 3 + 0"
  using total_paid_is_sum [of sample_lib sample_sheet "[sample_paid, sample_pending]" sample_paid
      sample_fs "''faturas.xlsx''" "''Dados''" "''pw''" "[sample_paid]" "[sample_pending]" sample_pending]
    normalize_frame_sample load_data_sample
  by (simp add: sample_paid_def sample_pending_def)

lemma normalize_row_status_cases:
  "(status (normalize_row lib rs row) = ''Pago'') = (data_pagamento (normalize_row lib rs row) \<noteq> None)"
  "(status (normalize_row lib rs row) = ''Pendente'') = (data_pagamento (normalize_row lib rs row) = None)"
  by (simp_all add: normalize_row_def Let_def)

subsection \<open>The status\<close>

text \<open>
  Claim C2. Every record of the normalized frame, and so every record \<^verbatim>\<open>load_data\<close>
  returns, has the status Pago exactly when its payment date is present (the date cell was
  coerced to a date-time rather than to NaT) and the status Pendente exactly when it is
  absent; it has one of the two statuses and not both.
\<close>

theorem status_iff_payment_date:
  fixes lib :: "('n::{zero,plus}) library"
  shows "(normalize_frame lib raw = Inr df \<and> r \<in> set df \<longrightarrow>
            (status r = ''Pago'' \<longleftrightarrow> data_pagamento r \<noteq> None)
          \<and> (status r = ''Pendente'' \<longleftrightarrow> data_pagamento r = None)
          \<and> (status r = ''Pago'' \<or> status r = ''Pendente'')
          \<and> \<not> (status r = ''Pago'' \<and> status r = ''Pendente'')
          \<and> (\<exists>row \<in> set (rows (select_columns (rename_columns raw))).
                data_pagamento r = to_datetime lib (cell_at row ''data_pagamento'')))
       \<and> (load_data lib fs p s pw = Inr (pago, pend) \<and> q \<in> set pago \<union> set pend \<longrightarrow>
            (status q = ''Pago'' \<longleftrightarrow> data_pagamento q \<noteq> None)
          \<and> (status q = ''Pendente'' \<longleftrightarrow> data_pagamento q = None)
          \<and> (status q = ''Pago'' \<or> status q = ''Pendente'')
          \<and> \<not> (status q = ''Pago'' \<and> status q = ''Pendente''))"
    (is "(?A \<longrightarrow> ?P) \<and> (?B \<longrightarrow> ?Q)")
proof (rule conjI; rule impI)
  assume ?A
  then have df: "normalize_frame lib raw = Inr df" and r: "r \<in> set df" by simp_all
  have "df = map (normalize_row lib (rows (select_columns (rename_columns raw))))
           (rows (select_columns (rename_columns raw)))"
    using df by (rule normalize_frame_Inr)
  with r obtain row where row: "row \<in> set (rows (select_columns (rename_columns raw)))"
    and eq: "r = normalize_row lib (rows (select_columns (rename_columns raw))) row" by auto
  have "data_pagamento r = to_datetime lib (cell_at row ''data_pagamento'')"
    by (simp add: eq normalize_row_def Let_def)
  with row have "\<exists>row \<in> set (rows (select_columns (rename_columns raw))).
      data_pagamento r = to_datetime lib (cell_at row ''data_pagamento'')" by blast
  then show ?P
    by (auto simp: eq normalize_row_status_cases)
next
  assume ?B
  then obtain rs row where "q = normalize_row lib rs row"
    by (blast dest: load_data_records)
  then show ?Q
    by (auto simp: normalize_row_status_cases)
qed

theorem status_iff_payment_date_witness:
  "normalize_frame sample_lib sample_sheet = Inr [sample_paid, sample_pending]
   \<and> sample_paid \<in> set [sample_paid, sample_pending]
   \<and> status sample_paid = ''Pago'' \<and> data_pagamento sample_paid = Some 100
   \<and> load_data sample_lib sample_fs ''faturas.xlsx'' ''Dados'' ''pw'' = Inr ([sample_paid], [sample_pending])
   \<and> sample_pending \<in> set [sample_paid] \<union> set [sample_pending]
   \<and> status sample_pending = ''Pendente'' \<and> data_pagamento sample_pending = None"
  using status_iff_payment_date [of sample_lib sample_sheet "[sample_paid, sample_pending]" sample_paid
      sample_fs "''faturas.xlsx''" "''Dados''" "''pw''" "[sample_paid]" "[sample_pending]" sample_pending]
    normalize_frame_sample load_data_sample
  by (simp add: sample_paid_def sample_pending_def)

subsection \<open>The partition\<close>

lemma filter_status_partition:
  assumes "\<forall>r \<in> set df. status r = ''Pago'' \<or> status r = ''Pendente''"
  shows "filter (\<lambda>r. status r = ''Pendente'') df = filter (\<lambda>r. \<not> status r = ''Pago'') df"
  using assms by (intro filter_cong) auto

text \<open>
  Claim C3. When \<^verbatim>\<open>load_data\<close> succeeds, its two results are the records of the
  normalized frame with status Pago and those with status Pendente, each in the frame's
  order (a subsequence of it). Together they hold every record of the frame exactly once
  (as multisets, and so in length), and no record is in both.
\<close>

theorem partition_paid_pending:
  fixes lib :: "('n::{zero,plus}) library"
  assumes "load_data lib fs p s pw = Inr (pago, pend)"
  shows "\<exists>wb raw df. fs p = Some wb \<and> map_of wb s = Some raw \<and> normalize_frame lib raw = Inr df
          \<and> pago = filter (\<lambda>r. status r = ''Pago'') df
          \<and> pend = filter (\<lambda>r. status r = ''Pendente'') df
          \<and> subseq pago df \<and> subseq pend df
          \<and> mset pago + mset pend = mset df
          \<and> length pago + length pend = length df
          \<and> set pago \<union> set pend = set df
          \<and> set pago \<inter> set pend = {}"
proof -
  from assms obtain wb raw df where wb: "fs p = Some wb" and raw: "map_of wb s = Some raw"
    and df: "normalize_frame lib raw = Inr df"
    and pago: "pago = filter (\<lambda>r. status r = ''Pago'') df"
    and pend: "pend = filter (\<lambda>r. status r = ''Pendente'') df"
    by (blast dest: load_data_Inr)
  have one: "\<forall>r \<in> set df. status r = ''Pago'' \<or> status r = ''Pendente''"
  proof
    fix r assume "r \<in> set df"
    with df obtain rs row where "r = normalize_row lib rs row"
      by (blast dest: normalize_frame_records)
    then show "status r = ''Pago'' \<or> status r = ''Pendente''"
      by (simp add: normalize_row_status)
  qed
  have pend': "pend = filter (\<lambda>r. \<not> status r = ''Pago'') df"
    unfolding pend using one by (rule filter_status_partition)
  have m: "mset pago + mset pend = mset df"
    unfolding pago pend' by (simp add: mset_filter)
  have l: "length pago + length pend = length df"
    unfolding pago pend' by (rule sum_length_filter_compl)
  have u: "set pago \<union> set pend = set df"
    unfolding pago pend' by auto
  have i: "set pago \<inter> set pend = {}"
    unfolding pago pend' by auto
  have s1: "subseq pago df" unfolding pago by (rule subseq_filter_left)
  have s2: "subseq pend df" unfolding pend by (rule subseq_filter_left)
  show ?thesis
    by (intro exI conjI) (rule wb raw df pago pend s1 s2 m l u i)+
qed

theorem partition_paid_pending_witness:
  "load_data sample_lib sample_fs ''faturas.xlsx'' ''Dados'' ''pw'' = Inr ([sample_paid], [sample_pending])
   \<and> (\<exists>wb raw df. sample_fs ''faturas.xlsx'' = Some wb \<and> map_of wb ''Dados'' = Some raw
          \<and> normalize_frame sample_lib raw = Inr df
          \<and> [sample_paid] = filter (\<lambda>r. status r = ''Pago'') df
          \<and> [sample_pending] = filter (\<lambda>r. status r = ''Pendente'') df
          \<and> subseq [sample_paid] df \<and> subseq [sample_pending] df
          \<and> mset [sample_paid] + mset [sample_pending] = mset df
          \<and> length [sample_paid] + length [sample_pending] = length df
          \<and> set [sample_paid] \<union> set [sample_pending] = set df
          \<and> set [sample_paid] \<inter> set [sample_pending] = {})"
  using load_data_sample partition_paid_pending [OF load_data_sample]
  by (rule conjI)

subsection \<open>Absent columns\<close>

lemma require_columns_absent:
  "c \<in> fst ` set cs \<Longrightarrow> c \<notin> set (columns df) \<Longrightarrow> require_columns df cs \<noteq> None"
proof (induction cs)
  case Nil
  then show ?case by simp
next
  case (Cons a cs)
  obtain l k where a: "a = (l, k)" by (cases a)
  show ?case
  proof (cases "l = c")
    case True
    with Cons.prems(2) have "filter ((=) l) (columns df) = []"
      by (auto simp: filter_empty_conv)
    then show ?thesis by (simp add: a)
  next
    case False
    with Cons.prems(1) a have "c \<in> fst ` set cs" by auto
    then have "require_columns df cs \<noteq> None"
      using Cons.prems(2) by (rule Cons.IH)
    then show ?thesis
      by (simp add: a split: list.splits col_kind.splits)
  qed
qed

lemma select_columns_absent:
  "c \<notin> set (columns df) \<Longrightarrow> c \<notin> set (columns (select_columns df))"
  by (auto simp: select_columns_def)

lemma absent_column_fails:
  fixes lib :: "('n::{zero,plus}) library"
  assumes "c \<in> fst ` set accessed_cols" and "c \<notin> rename_label ` set (columns raw)"
  shows "\<exists>e. normalize_frame lib raw = Inl e"
proof -
  from assms(2) have "c \<notin> set (columns (select_columns (rename_columns raw)))"
    by (intro select_columns_absent) (simp add: rename_columns_def)
  with assms(1) have "require_columns (select_columns (rename_columns raw)) accessed_cols \<noteq> None"
    by (rule require_columns_absent)
  then show ?thesis
    by (auto simp: normalize_frame_def Let_def)
qed

text \<open>
  Claim C4 says that a recognized column missing from the sheet is left out without an
  error. Line 51 does keep only the labels the frame has, but lines 53 to 58 then read
  every one of the eleven labels, so a missing one raises KeyError, which
  \<^verbatim>\<open>load_data\<close> catches and reports as a failed load (\<open>absent_column_fails\<close>, for
  every frame). Here the sample sheet without its IOF column: the selection omits the label,
  and the load fails with KeyError on it.
\<close>

theorem absent_column_fails_load:
  "''iof'' \<notin> set (columns (select_columns (rename_columns sample_sheet_no_iof)))
   \<and> normalize_frame sample_lib sample_sheet_no_iof = Inl (KeyError ''iof'')
   \<and> load_data sample_lib sample_fs_no_iof ''faturas.xlsx'' ''Dados'' ''pw''
       = Inl (LoadFailure (KeyError ''iof''))"
  by (simp add: load_data_def sample_fs_no_iof_def sample_sheet_no_iof_def sample_sheet_def
      sample_row_def normalize_frame_def rename_columns_def select_columns_def rename_label_def
      rename_map_def cols_to_keep_def accessed_cols_def numeric_cols_def Numero_do_RM_def Let_def)

subsection \<open>The amounts\<close>

text \<open>
  Claim C5 says that every amount is non-negative after normalization. The normalizer
  coerces and fills, and checks no sign: a cell holding the number -5 gives the amount -5.
\<close>

theorem negative_amount_counterexample:
  "load_data sample_lib sample_fs_negative ''faturas.xlsx'' ''Dados'' ''pw'' = Inr ([sample_negative], [])
   \<and> valor_principal_rs sample_negative = - 5
   \<and> \<not> 0 \<le> valor_principal_rs sample_negative"
  by (simp add: load_data_def sample_fs_negative_def sample_sheet_negative_def sample_sheet_def
      sample_row_def normalize_frame_def
      rename_columns_def select_columns_def rename_label_def rename_map_def cols_to_keep_def
      accessed_cols_def numeric_cols_def normalize_row_def coerce_amount_def cell_at_def to_numeric_def
      to_datetime_def fillna_def fillna_cell_def astype_str_def column_cells_def sample_lib_def
      partition_status_def sample_paid_def sample_negative_def Numero_do_RM_def
      Nao_informado_def Nao_informada_def Let_def)

lemma coerce_amount_cases:
  fixes lib :: "('n::{zero,preorder}) library"
  shows "coerce_amount lib Blank = 0"
    and "coerce_amount lib (Num x) = x"
    and "to_numeric lib c = None \<Longrightarrow> coerce_amount lib c = 0"
    and "(0 \<le> coerce_amount lib c) = (\<forall>y. to_numeric lib c = Some y \<longrightarrow> 0 \<le> y)"
  by (simp_all add: coerce_amount_def fillna_def to_numeric_def split: option.splits)

text \<open>
  Claim C5 as amended. Every amount of every normalized record (principal, IOF, contract
  tax, withholding tax, CIDE, amount in the foreign currency) is the number its cell is
  coerced to: the cell's own number when it holds one, whatever its sign, and 0 when the
  cell is empty or does not parse. So an amount is non-negative exactly when the number
  the cell is coerced to is.
\<close>

theorem amounts_are_coerced_cells:
  fixes lib :: "('n::{zero,plus,preorder}) library"
  assumes "normalize_frame lib raw = Inr df" and "r \<in> set df"
  shows "(\<exists>row \<in> set (rows (select_columns (rename_columns raw))).
           valor_principal_rs r = coerce_amount lib (cell_at row ''valor_principal_rs'')
         \<and> iof r = coerce_amount lib (cell_at row ''iof'')
         \<and> tx_contrato r = coerce_amount lib (cell_at row ''tx_contrato'')
         \<and> irrf r = coerce_amount lib (cell_at row ''irrf'')
         \<and> cide r = coerce_amount lib (cell_at row ''cide'')
         \<and> valor_moeda_origem r = coerce_amount lib (cell_at row ''valor_moeda_origem''))
       \<and> coerce_amount lib Blank = 0
       \<and> coerce_amount lib (Num x) = x
       \<and> (to_numeric lib c = None \<longrightarrow> coerce_amount lib c = 0)
       \<and> ((0 \<le> coerce_amount lib c) = (\<forall>y. to_numeric lib c = Some y \<longrightarrow> 0 \<le> y))"
proof -
  have "df = map (normalize_row lib (rows (select_columns (rename_columns raw))))
           (rows (select_columns (rename_columns raw)))"
    using assms(1) by (rule normalize_frame_Inr)
  with assms(2) obtain row where row: "row \<in> set (rows (select_columns (rename_columns raw)))"
    and eq: "r = normalize_row lib (rows (select_columns (rename_columns raw))) row" by auto
  have "\<exists>row \<in> set (rows (select_columns (rename_columns raw))).
           valor_principal_rs r = coerce_amount lib (cell_at row ''valor_principal_rs'')
         \<and> iof r = coerce_amount lib (cell_at row ''iof'')
         \<and> tx_contrato r = coerce_amount lib (cell_at row ''tx_contrato'')
         \<and> irrf r = coerce_amount lib (cell_at row ''irrf'')
         \<and> cide r = coerce_amount lib (cell_at row ''cide'')
         \<and> valor_moeda_origem r = coerce_amount lib (cell_at row ''valor_moeda_origem'')"
    by (rule bexI [OF _ row]) (simp add: eq normalize_row_def Let_def)
  then show ?thesis
    using coerce_amount_cases [of lib] by blast
qed

lemma normalize_frame_sample_negative:
  "normalize_frame sample_lib sample_sheet_negative = Inr [sample_negative]"
  by (simp add: sample_sheet_negative_def sample_sheet_def sample_row_def normalize_frame_def
      rename_columns_def select_columns_def rename_label_def rename_map_def cols_to_keep_def
      accessed_cols_def numeric_cols_def normalize_row_def coerce_amount_def cell_at_def
      to_numeric_def to_datetime_def fillna_def fillna_cell_def astype_str_def column_cells_def sample_lib_def
      sample_paid_def sample_negative_def Numero_do_RM_def Nao_informado_def Nao_informada_def
      Let_def)

theorem amounts_are_coerced_cells_witness:
  "normalize_frame sample_lib sample_sheet_negative = Inr [sample_negative]
   \<and> sample_negative \<in> set [sample_negative]
   \<and> (\<exists>row \<in> set (rows (select_columns (rename_columns sample_sheet_negative))).
         valor_principal_rs sample_negative = coerce_amount sample_lib (cell_at row ''valor_principal_rs''))
   \<and> coerce_amount sample_lib (Num (- 5)) = - 5
   \<and> \<not> 0 \<le> coerce_amount sample_lib (Num (- 5))"
proof -
  have h: "sample_negative \<in> set [sample_negative]" by simp
  show ?thesis
    using amounts_are_coerced_cells [OF normalize_frame_sample_negative h, of "- 5" "Num (- 5)"]
      normalize_frame_sample_negative
    by auto
qed

subsection \<open>The filters\<close>

lemma filter_pago_as_filter:
  "filter_pago date_range sc sr paid =
     filter (\<lambda>r. (length date_range = 2 \<longrightarrow>
                    between (data_pagamento r) (to_datetime_date (date_range ! 0))
                      (to_datetime_date (date_range ! 1)))
                 \<and> isin (correspondente r) sc \<and> isin (numero_rm r) sr) paid"
  by (simp add: filter_pago_def Let_def)

lemma to_datetime_date_le [simp]:
  "(to_datetime_date d \<le> to_datetime_date e) = (d \<le> e)"
  by (simp add: to_datetime_date_def ns_per_day_def)

text \<open>
  With a date range of two dates, the paid frame is the paid frame filtered without a date
  range, restricted to the records whose payment date-time lies between the midnight of the
  start date and the midnight of the end date, both ends included; the pending frame is the
  same as without a date range. For a record whose payment date-time is the midnight of a
  day \<open>d\<close>, that is \<open>start \<le> d \<le> end\<close>.
\<close>

lemma date_filter_between_midnights:
  "filter_pago [start, end] sc sr paid =
     filter (\<lambda>r. case data_pagamento r of None \<Rightarrow> False
                  | Some t \<Rightarrow> to_datetime_date start \<le> t \<and> t \<le> to_datetime_date end)
       (filter_pago [] sc sr paid)
   \<and> df_pago_filtered (apply_filters [start, end] sc sr s) =
     filter (\<lambda>r. case data_pagamento r of None \<Rightarrow> False
                  | Some t \<Rightarrow> to_datetime_date start \<le> t \<and> t \<le> to_datetime_date end)
       (df_pago_filtered (apply_filters [] sc sr s))
   \<and> df_pendente_filtered (apply_filters [start, end] sc sr s) =
     df_pendente_filtered (apply_filters [] sc sr s)
   \<and> (r \<in> set (filter_pago [] sc sr paid) \<and> data_pagamento r = Some (to_datetime_date d) \<longrightarrow>
        (r \<in> set (filter_pago [start, end] sc sr paid) \<longleftrightarrow> start \<le> d \<and> d \<le> end))"
  by (auto simp: filter_pago_as_filter apply_filters_def between_def split: option.splits
      intro!: filter_cong)

lemma midnight_payments_on_end_day_kept:
  "filter_pago [0, 30] [Str ''Acme''] [''7''] [paid_on 30, paid_on 31] = [paid_on 30]"
  by (simp add: filter_pago_as_filter isin_def paid_on_def sample_paid_def between_def)

text \<open>
  Claim C6 says that the date filter includes both ends: a paid record is kept exactly when
  its payment date is from the start date to the end date. The filter does act on the paid
  frame only and \<^verbatim>\<open>between\<close> does include both ends, but line 186 turns the end date
  into its midnight and line 187 compares the payment date-time with it, so a payment made
  on the end day at any later time of day is after the end and is dropped. Here two
  payments, at midnight of day 0 and at noon of day 30: the widget's own bounds and default
  range are the days 0 to 30, the second payment is of day 30, both pass the other filters,
  and the date filter from day 0 to day 30 drops the second.
\<close>

theorem end_day_payment_dropped:
  "min_max_date [paid_on 0, paid_at_noon 30] = Some (0, 30)
   \<and> map_option timestamp_date (data_pagamento (paid_at_noon 30)) = Some 30
   \<and> filter_pago [] [Str ''Acme''] [''7''] [paid_on 0, paid_at_noon 30]
       = [paid_on 0, paid_at_noon 30]
   \<and> filter_pago [0, 30] [Str ''Acme''] [''7''] [paid_on 0, paid_at_noon 30] = [paid_on 0]"
  by (simp add: min_max_date_def series_min_max_def List.map_filter_def timestamp_date_def to_datetime_date_def
      ns_per_day_def filter_pago_as_filter isin_def paid_on_def paid_at_noon_def sample_paid_def
      between_def)

text \<open>
  Claim C7. An empty selection of counterparties, or of reference numbers, leaves both the
  paid and the pending frame empty, whatever the date range.
\<close>

theorem empty_selection_filters_everything:
  "filter_pago date_range [] sr paid = []
   \<and> filter_pago date_range sc [] paid = []
   \<and> filter_pendente [] sr pend = []
   \<and> filter_pendente sc [] pend = []
   \<and> df_pago_filtered (apply_filters date_range [] sr s) = []
   \<and> df_pendente_filtered (apply_filters date_range [] sr s) = []
   \<and> df_pago_filtered (apply_filters date_range sc [] s) = []
   \<and> df_pendente_filtered (apply_filters date_range sc [] s) = []"
  by (simp add: filter_pago_as_filter filter_pendente_def apply_filters_def isin_def)

text \<open>
  Claim C8. Filtering the filtered frames again with the same selections gives the same
  frames, and so does running the filter step twice; the step leaves the two original
  frames as they were.
\<close>

theorem filter_idempotent:
  "filter_pago date_range sc sr (filter_pago date_range sc sr paid) = filter_pago date_range sc sr paid
   \<and> filter_pendente sc sr (filter_pendente sc sr pend) = filter_pendente sc sr pend
   \<and> apply_filters date_range sc sr (apply_filters date_range sc sr s) = apply_filters date_range sc sr s
   \<and> df_pago_original (apply_filters date_range sc sr s) = df_pago_original s
   \<and> df_pendente_original (apply_filters date_range sc sr s) = df_pendente_original s"
  by (simp add: filter_pago_as_filter filter_pendente_def apply_filters_def)

subsection \<open>The pages on empty frames\<close>

text \<open>
  On a paid frame without rows the overview returns (it does not raise) with the total 0, no
  largest invoice (shown as N/A), N/A for the reference number and the counterparty,
  "R$ 0,00" in their help texts and no chart: the guard on \<^verbatim>\<open>df_pago.empty\<close> keeps
  \<^verbatim>\<open>idxmax\<close>, which raises on an empty series, from running. The counterparty page
  shows its message in place of the ranking and draws no pie when the paid frame is empty,
  and its message in place of the pending table when the pending frame is empty; none of
  its statements can raise. The page by reference number, on two empty frames, returns with
  no reference number, no default selection, and (for any selection) its message in place
  of the chart and an empty table.
\<close>

lemma views_on_empty_input:
  fixes lib :: "('n::{zero,plus,linorder}) library"
  shows "display_visao_geral lib show_all [] =
           Inr \<lparr>valor_total_geral_pago = 0, maior_fatura_row = None,
                rm_maior_desembolso = ''N/A'', corr_maior_pago = Str ''N/A'',
                metrics =
                  [(''Valor Total Pago'', Str (format_currency lib (Some 0)), None),
                   (''Maior Fatura Paga'', Str ''N/A'', Some []),
                   (''RM com Maior Desembolso'', Str ''N/A'', Some ''Valor: R$ 0,00''),
                   (''Correspondente com Maior Desembolso'', Str ''N/A'', Some ''Valor: R$ 0,00'')],
                fig_bar_stacked = None, fig_treemap = None\<rparr>
       \<and> ranking (display_correspondentes lib [] df_pendente)
           = Info (Nao_ha @ '' pagamentos para exibir o ranking.'')
       \<and> fig_pie (display_correspondentes lib [] df_pendente) = None
       \<and> pendencias (display_correspondentes lib df_pago [])
           = Info (Nao_ha @ '' faturas pendentes.'')
       \<and> display_rm_detalhado lib rm_selecionados [] [] =
           Inr \<lparr>lista_rms = [], default_rm_val = [],
                fig_bar_rm = (if rm_selecionados \<noteq> []
                              then Some (Info (Nao_ha @ '' pagamentos para os RMs selecionados.''))
                              else None),
                df_tabela = (if rm_selecionados \<noteq> [] then Some [] else None)\<rparr>"
  by (simp add: display_visao_geral_def overview_kpis_def bind_err_def
      display_correspondentes_def display_rm_detalhado_def)

text \<open>
  The overview never raises, whatever the paid frame: \<^verbatim>\<open>idxmax\<close> runs on series
  with a value only.
\<close>

lemma idxmax_Inr: "kvs \<noteq> [] \<Longrightarrow> \<exists>k. idxmax kvs = Inr k"
  by (cases kvs) simp_all

lemma display_visao_geral_returns:
  fixes lib :: "('n::{zero,plus,linorder}) library"
  shows "\<exists>page. display_visao_geral lib show_all df_pago = Inr page"
proof (cases "df_pago = []")
  case True
  then show ?thesis
    by (simp add: display_visao_geral_def overview_kpis_def bind_err_def)
next
  case False
  then have ne: "map (\<lambda>r. (r, valor_total_pago r)) df_pago \<noteq> []" by simp
  from idxmax_Inr [OF ne]
  obtain row where row: "idxmax (map (\<lambda>r. (r, valor_total_pago r)) df_pago) = Inr row"
    by blast
  have rm: "\<exists>k. (if g \<noteq> [] then idxmax g else Inr ''N/A'') = Inr k"
    for g :: "(string \<times> 'n) list"
    using idxmax_Inr [of g] by (cases "g = []") simp_all
  have co: "\<exists>k. (if g \<noteq> [] then idxmax g else Inr (Str ''N/A'')) = Inr k"
    for g :: "('n cell \<times> 'n) list"
    using idxmax_Inr [of g] by (cases "g = []") simp_all
  obtain k1 where k1: "(if groupby_sum (\<lambda>k. k) numero_rm valor_total_pago df_pago \<noteq> []
      then idxmax (groupby_sum (\<lambda>k. k) numero_rm valor_total_pago df_pago) else Inr ''N/A'') = Inr k1"
    using rm by blast
  obtain k2 where k2: "(if groupby_sum cell_rank correspondente valor_total_pago df_pago \<noteq> []
      then idxmax (groupby_sum cell_rank correspondente valor_total_pago df_pago)
      else Inr (Str ''N/A'')) = Inr k2"
    using co by blast
  have "\<exists>v. overview_kpis df_pago = Inr v"
    using False row k1 k2 by (simp add: overview_kpis_def bind_err_def Let_def)
  then show ?thesis
    by (auto simp: display_visao_geral_def bind_err_def split: prod.splits)
qed

text \<open>
  The page by reference number raises only at line 110, on a reference number that
  \<^verbatim>\<open>isdigit\<close> accepts and \<^verbatim>\<open>int\<close> does not.
\<close>

lemma ints_of_Inl:
  "ints_of lib rs = Inl e \<Longrightarrow> \<exists>r \<in> set rs. py_int lib r = None \<and> e = ValueError r"
  by (induction rs arbitrary: e) (auto simp: bind_err_def split: option.splits sum.splits)

lemma py_max_Inr: "xs \<noteq> [] \<Longrightarrow> \<exists>m. py_max xs = Inr m"
  by (cases xs) simp_all

lemma first_Inr: "xs \<noteq> [] \<Longrightarrow> \<exists>x. first xs = Inr x"
  by (cases xs) simp_all

lemma display_rm_detalhado_Inl:
  fixes lib :: "('n::{zero,plus,linorder}) library"
  assumes "display_rm_detalhado lib rm_selecionados df_pago df_pendente = Inl e"
  shows "\<exists>r \<in> set (map numero_rm (df_pago @ df_pendente)).
           py_isdigit lib r \<and> py_int lib r = None \<and> e = ValueError r"
proof (cases "ints_of lib (filter (py_isdigit lib)
                 (sort (remdups (map numero_rm (df_pago @ df_pendente)))))")
  case (Inl e')
  with assms have "e = e'"
    by (simp add: display_rm_detalhado_def bind_err_def Let_def)
  with Inl ints_of_Inl [OF Inl] show ?thesis by auto
next
  case (Inr ns)
  have "\<exists>d. (if ns \<noteq> [] then bind_err (py_max ns) (\<lambda>m. Inr [py_str lib m])
              else if l \<noteq> [] then bind_err (first l) (\<lambda>x. Inr [x]) else Inr []) = Inr d"
    for l :: "string list"
    using py_max_Inr [of ns] first_Inr [of l] by (auto simp: bind_err_def)
  then obtain d where "(if ns \<noteq> [] then bind_err (py_max ns) (\<lambda>m. Inr [py_str lib m])
              else if sort (remdups (map numero_rm (df_pago @ df_pendente))) \<noteq> []
                   then bind_err (first (sort (remdups (map numero_rm (df_pago @ df_pendente)))))
                          (\<lambda>x. Inr [x])
                   else Inr []) = Inr d"
    by blast
  with Inr assms show ?thesis
    by (simp add: display_rm_detalhado_def bind_err_def Let_def)
qed

text \<open>
  Claim C9 says that every page, given an empty paid or pending frame, returns zeroed or
  placeholder results and never raises. The guards on empty frames do that
  (\<open>views_on_empty_input\<close>), but the page by reference number first computes its default
  selection from the reference numbers of both frames, and line 110 calls \<^verbatim>\<open>int\<close>
  on every one that \<^verbatim>\<open>isdigit\<close> accepts. \<^verbatim>\<open>isdigit\<close> accepts characters
  that \<^verbatim>\<open>int\<close> refuses, the superscript two among them. Here a library that has of
  that text what Python has: with the paid frame empty and one pending record of that
  reference number, and with the pending frame empty and one such paid record, the page
  raises ValueError, whatever the selection.
\<close>

theorem rm_detalhado_raises_on_superscript_digit:
  "py_isdigit superscript_lib superscript_two
   \<and> py_int superscript_lib superscript_two = None
   \<and> display_rm_detalhado superscript_lib rm_selecionados [] [pending_superscript]
       = Inl (ValueError superscript_two)
   \<and> display_rm_detalhado superscript_lib rm_selecionados [paid_superscript] []
       = Inl (ValueError superscript_two)"
  by (simp add: display_rm_detalhado_def bind_err_def superscript_lib_def sample_lib_def
      pending_superscript_def paid_superscript_def sample_pending_def sample_paid_def Let_def)

end
